theory Spec2Isabelle
  imports Complex_Main
begin

section \<open>Typed arrays and the store\<close>

text \<open>
  The matrices of \<^verbatim>\<open>three.js\<close> are \<^verbatim>\<open>Float32Array\<close> objects of sixteen
  numbers in column-major order. The functions of \<^verbatim>\<open>mat4\<close> write into a
  caller-supplied array \<^verbatim>\<open>out\<close> that may be the very object they read from
  (\<^verbatim>\<open>drawScene\<close> always calls them so), hence the model keeps an explicit store
  from object references to array contents and performs the element writes one after
  the other, in the order of the source.

  Numbers are mathematical reals: the rounding of IEEE doubles and of the single
  precision storage is outside this model, and so are NaN and the infinities. What is
  proved of the program below either does not depend on rounding (which element is
  written, copied, compared or left alone; entries that are exactly 0, 1 or - 1) or is
  stated by the specification up to rounding. Two results about the values of the
  formulas themselves are marked as holding in exact arithmetic: they say nothing about
  the rounded numbers the program stores.
\<close>

type_synonym ref = nat

type_synonym heap = "ref \<Rightarrow> real list"

text \<open>\<^verbatim>\<open>p[i]\<close> read from the store.\<close>

definition rd :: "heap \<Rightarrow> ref \<Rightarrow> nat \<Rightarrow> real" where
  "rd h p i = h p ! i"

text \<open>
  \<^verbatim>\<open>p[i] = v\<close>. A typed array has a fixed length and ignores a write past its
  end, which is what \<open>list_update\<close> does.
\<close>

definition wr :: "heap \<Rightarrow> ref \<Rightarrow> nat \<Rightarrow> real \<Rightarrow> heap" where
  "wr h p i v = h(p := (h p)[i := v])"

section \<open>The object mat4\<close>

text \<open>\<^verbatim>\<open>mat4.create\<close>: the contents of the fresh array it returns.\<close>

definition mat4_create :: "real list" where
  "mat4_create = [1, 0, 0, 0,
             0, 1, 0, 0,
             0, 0, 1, 0,
             0, 0, 0, 1]"

text \<open>\<^verbatim>\<open>mat4.perspective(out, fovy, aspect, near, far)\<close>.\<close>

definition mat4_perspective :: "heap \<Rightarrow> ref \<Rightarrow> real \<Rightarrow> real \<Rightarrow> real \<Rightarrow> real \<Rightarrow> heap \<times> ref" where
  "mat4_perspective h out fovy aspect near far =
    (let f = 1 / tan (fovy / 2);
         h = wr h out 0 (f / aspect);
         h = wr h out 1 0;
         h = wr h out 2 0;
         h = wr h out 3 0;
         h = wr h out 4 0;
         h = wr h out 5 f;
         h = wr h out 6 0;
         h = wr h out 7 0;
         h = wr h out 8 0;
         h = wr h out 9 0;
         h = wr h out 10 ((far + near) / (near - far));
         h = wr h out 11 (- 1);
         h = wr h out 12 0;
         h = wr h out 13 0;
         h = wr h out 14 ((2 * far * near) / (near - far));
         h = wr h out 15 0
     in (h, out))"

text \<open>
  \<^verbatim>\<open>mat4.translate(out, a, v)\<close>, with \<^verbatim>\<open>v\<close> an array of three numbers. Every
  read of \<^verbatim>\<open>a\<close> is a read of the store as the writes before it left it.
\<close>

definition mat4_translate :: "heap \<Rightarrow> ref \<Rightarrow> ref \<Rightarrow> real \<times> real \<times> real \<Rightarrow> heap \<times> ref" where
  "mat4_translate h out a v =
    (let x = fst v; y = fst (snd v); z = snd (snd v);
         h = wr h out 0 (rd h a 0);
         h = wr h out 1 (rd h a 1);
         h = wr h out 2 (rd h a 2);
         h = wr h out 3 (rd h a 3);
         h = wr h out 4 (rd h a 4);
         h = wr h out 5 (rd h a 5);
         h = wr h out 6 (rd h a 6);
         h = wr h out 7 (rd h a 7);
         h = wr h out 8 (rd h a 8);
         h = wr h out 9 (rd h a 9);
         h = wr h out 10 (rd h a 10);
         h = wr h out 11 (rd h a 11);
         h = wr h out 12 (rd h a 0 * x + rd h a 4 * y + rd h a 8 * z + rd h a 12);
         h = wr h out 13 (rd h a 1 * x + rd h a 5 * y + rd h a 9 * z + rd h a 13);
         h = wr h out 14 (rd h a 2 * x + rd h a 6 * y + rd h a 10 * z + rd h a 14);
         h = wr h out 15 (rd h a 3 * x + rd h a 7 * y + rd h a 11 * z + rd h a 15)
     in (h, out))"

text \<open>
  \<^verbatim>\<open>mat4.rotate(out, a, rad, axis)\<close>. The result \<^verbatim>\<open>null\<close> is \<open>None\<close>; it is
  returned before anything is read from \<^verbatim>\<open>a\<close> or written to \<^verbatim>\<open>out\<close>.
\<close>

definition mat4_rotate :: "heap \<Rightarrow> ref \<Rightarrow> ref \<Rightarrow> real \<Rightarrow> real \<times> real \<times> real \<Rightarrow> heap \<times> ref option" where
  "mat4_rotate h out a rad axis =
    (let x = fst axis; y = fst (snd axis); z = snd (snd axis);
         len = sqrt (x * x + y * y + z * z)
     in if len < 0.000001 then (h, None)
        else
         (let len = 1 / len;
              x = x * len;
              y = y * len;
              z = z * len;
              s = sin rad;
              c = cos rad;
              t = 1 - c;
              a00 = rd h a 0; a01 = rd h a 1; a02 = rd h a 2; a03 = rd h a 3;
              a10 = rd h a 4; a11 = rd h a 5; a12 = rd h a 6; a13 = rd h a 7;
              a20 = rd h a 8; a21 = rd h a 9; a22 = rd h a 10; a23 = rd h a 11;
              b00 = x * x * t + c;
              b01 = y * x * t + z * s;
              b02 = z * x * t - y * s;
              b10 = x * y * t - z * s;
              b11 = y * y * t + c;
              b12 = z * y * t + x * s;
              b20 = x * z * t + y * s;
              b21 = y * z * t - x * s;
              b22 = z * z * t + c;
              h = wr h out 0 (a00 * b00 + a10 * b01 + a20 * b02);
              h = wr h out 1 (a01 * b00 + a11 * b01 + a21 * b02);
              h = wr h out 2 (a02 * b00 + a12 * b01 + a22 * b02);
              h = wr h out 3 (a03 * b00 + a13 * b01 + a23 * b02);
              h = wr h out 4 (a00 * b10 + a10 * b11 + a20 * b12);
              h = wr h out 5 (a01 * b10 + a11 * b11 + a21 * b12);
              h = wr h out 6 (a02 * b10 + a12 * b11 + a22 * b12);
              h = wr h out 7 (a03 * b10 + a13 * b11 + a23 * b12);
              h = wr h out 8 (a00 * b20 + a10 * b21 + a20 * b22);
              h = wr h out 9 (a01 * b20 + a11 * b21 + a21 * b22);
              h = wr h out 10 (a02 * b20 + a12 * b21 + a22 * b22);
              h = wr h out 11 (a03 * b20 + a13 * b21 + a23 * b22);
              h = (if a \<noteq> out
                   then (let h = wr h out 12 (rd h a 12);
                             h = wr h out 13 (rd h a 13);
                             h = wr h out 14 (rd h a 14);
                             h = wr h out 15 (rd h a 15)
                         in h)
                   else h)
          in (h, Some out)))"

text \<open>
  The row of a column-major matrix that multiplies into the \<open>w\<close> component: the
  elements at the indices 3, 7, 11 and 15.
\<close>

definition last_row :: "real list \<Rightarrow> real list" where
  "last_row m = [m ! 3, m ! 7, m ! 11, m ! 15]"

subsection \<open>The mathematics the specification compares with\<close>

text \<open>
  These two definitions follow the words of the specification, not the source: the
  product of two column-major 4x4 matrices, and the elementary translation matrix of a
  vector. \<^verbatim>\<open>mat4.translate\<close> is compared with them below.
\<close>

definition mat4_multiply_spec :: "real list \<Rightarrow> real list \<Rightarrow> real list" where
  "mat4_multiply_spec m n =
     map (\<lambda>k. let col = k div 4; row = k mod 4
              in m ! row * n ! (4 * col)
               + m ! (4 + row) * n ! (4 * col + 1)
               + m ! (8 + row) * n ! (4 * col + 2)
               + m ! (12 + row) * n ! (4 * col + 3)) [0 ..< 16]"

definition translation_matrix_spec :: "real \<Rightarrow> real \<Rightarrow> real \<Rightarrow> real list" where
  "translation_matrix_spec x y z = [1, 0, 0, 0,
                                    0, 1, 0, 0,
                                    0, 0, 1, 0,
                                    x, y, z, 1]"

subsection \<open>The vertex shader\<close>

text \<open>
  The vertex shader computes \<^verbatim>\<open>uProjectionMatrix * uModelViewMatrix * aVertexPosition\<close>;
  \<open>mat4_times_vec4\<close> is the product of a column-major \<^verbatim>\<open>mat4\<close> uniform with a
  \<^verbatim>\<open>vec4\<close>. The division of the clip-space depth by \<open>w\<close> is done by the
  pipeline after the shader.
\<close>

definition mat4_times_vec4 :: "real list \<Rightarrow> real \<times> real \<times> real \<times> real \<Rightarrow> real \<times> real \<times> real \<times> real" where
  "mat4_times_vec4 m v =
    (case v of (x, y, z, w) \<Rightarrow>
      (m ! 0 * x + m ! 4 * y + m ! 8 * z + m ! 12 * w,
       m ! 1 * x + m ! 5 * y + m ! 9 * z + m ! 13 * w,
       m ! 2 * x + m ! 6 * y + m ! 10 * z + m ! 14 * w,
       m ! 3 * x + m ! 7 * y + m ! 11 * z + m ! 15 * w))"

definition depth_after_divide :: "real \<times> real \<times> real \<times> real \<Rightarrow> real" where
  "depth_after_divide v = (case v of (x, y, z, w) \<Rightarrow> z / w)"

section \<open>The pentagon of initBuffers\<close>

text \<open>
  The loop \<^verbatim>\<open>for (let i = 0; i < 5; i++)\<close> of \<^verbatim>\<open>initBuffers\<close>, with the
  constants \<^verbatim>\<open>radius\<close>, \<^verbatim>\<open>centerX\<close> and \<^verbatim>\<open>centerY\<close> it reads as parameters
  and the array \<^verbatim>\<open>vertices\<close> it pushes to as accumulator.
\<close>

function initBuffers_loop :: "real \<Rightarrow> real \<Rightarrow> real \<Rightarrow> nat \<Rightarrow> real list \<Rightarrow> real list" where
  "initBuffers_loop radius centerX centerY i vertices =
     (if i < 5
      then (let angle = (real i * 2 * pi / 5) - (pi / 2);
                x = centerX + radius * cos angle;
                y = centerY + radius * sin angle
            in initBuffers_loop radius centerX centerY (i + 1) (vertices @ [x, y, 0]))
      else vertices)"
  by pat_completeness auto
termination
  by (relation "measure (\<lambda>(radius, centerX, centerY, i, vertices). 5 - i)") auto

text \<open>The array \<^verbatim>\<open>vertices\<close> that \<^verbatim>\<open>initBuffers\<close> hands to the graphics library.\<close>

definition initBuffers_vertices :: "real list" where
  "initBuffers_vertices =
     (let vertices = [];
          radius = 0.8;
          centerX = 0;
          centerY = 0
      in initBuffers_loop radius centerX centerY 0 vertices)"

definition initBuffers_vertexCount :: nat where
  "initBuffers_vertexCount = 5"

text \<open>The \<open>i\<close>-th vertex of a flat array of coordinates, three numbers a vertex.\<close>

definition vertex :: "real list \<Rightarrow> nat \<Rightarrow> real \<times> real \<times> real" where
  "vertex vs i = (vs ! (3 * i), vs ! (3 * i + 1), vs ! (3 * i + 2))"

section \<open>The state of main and its handlers\<close>

text \<open>
  The variables that \<^verbatim>\<open>main\<close> declares and its closures share, together with the
  parts of the document the click handlers read and write. A colour is an array of
  four numbers. \<open>location_href\<close> is \<^verbatim>\<open>window.location.href\<close>, which no handler
  writes.
\<close>

type_synonym rgba = "real \<times> real \<times> real \<times> real"

record ui_state =
  color :: rgba
  rotationX :: real
  rotationY :: real
  rotationSpeedX :: real
  rotationSpeedY :: real
  isRotating :: bool
  toggleRotation_textContent :: string
  shareSection_display :: string
  graphicsUrl_textContent :: string
  codeUrl_textContent :: string
  location_href :: string

text \<open>
  The state when \<^verbatim>\<open>main\<close> has run its declarations; the contents of the document
  come from the page, which is not part of the program.
\<close>

definition main_state :: "string \<Rightarrow> string \<Rightarrow> string \<Rightarrow> string \<Rightarrow> string \<Rightarrow> ui_state" where
  "main_state button_label display graphics code href =
     \<lparr> color = (0.2, 0.4, 0.8, 1.0),
       rotationX = 0,
       rotationY = 0,
       rotationSpeedX = 0.01,
       rotationSpeedY = 0.005,
       isRotating = True,
       toggleRotation_textContent = button_label,
       shareSection_display = display,
       graphicsUrl_textContent = graphics,
       codeUrl_textContent = code,
       location_href = href \<rparr>"

text \<open>
  One run of \<^verbatim>\<open>render\<close>. \<^verbatim>\<open>drawScene\<close> receives the colour and the two angles
  and draws; it assigns to none of the variables of the state. The request for the
  next frame is the iteration of this function.
\<close>

definition render :: "ui_state \<Rightarrow> ui_state" where
  "render s =
     (if isRotating s
      then (let s = s\<lparr> rotationX := rotationX s + rotationSpeedX s \<rparr>;
                s = s\<lparr> rotationY := rotationY s + rotationSpeedY s \<rparr>
            in s)
      else s)"

text \<open>The click handler of \<^verbatim>\<open>toggleRotation\<close>.\<close>

definition toggleRotation_click :: "ui_state \<Rightarrow> ui_state" where
  "toggleRotation_click s =
     (let s = s\<lparr> isRotating := \<not> isRotating s \<rparr>;
          s = s\<lparr> toggleRotation_textContent :=
                   (if isRotating s then ''Pause Rotation'' else ''Resume Rotation'') \<rparr>
      in s)"

text \<open>The click handler of \<^verbatim>\<open>changeColor\<close>.\<close>

definition changeColor_click :: "ui_state \<Rightarrow> ui_state" where
  "changeColor_click s =
     (case color s of (c0, c1, c2, c3) \<Rightarrow>
        if c0 = 0.2 \<and> c1 = 0.4 \<and> c2 = 0.8
        then s\<lparr> color := (0.8, 0.2, 0.2, 1.0) \<rparr>
        else s\<lparr> color := (0.2, 0.4, 0.8, 1.0) \<rparr>)"

text \<open>The click handler of \<^verbatim>\<open>resetView\<close>.\<close>

definition resetView_click :: "ui_state \<Rightarrow> ui_state" where
  "resetView_click s =
     (let s = s\<lparr> rotationX := 0 \<rparr>;
          s = s\<lparr> rotationY := 0 \<rparr>
      in s)"

text \<open>The click handler of \<^verbatim>\<open>shareButton\<close>.\<close>

definition shareButton_click :: "ui_state \<Rightarrow> ui_state" where
  "shareButton_click s =
     (let s = s\<lparr> shareSection_display :=
                   (if shareSection_display s = ''none'' then ''block'' else ''none'') \<rparr>;
          s = s\<lparr> graphicsUrl_textContent := location_href s @ ''#graphics-view'' \<rparr>;
          s = s\<lparr> codeUrl_textContent := location_href s @ ''#code-view'' \<rparr>
      in s)"

text \<open>
  The render state of the specification: the six variables of \<^verbatim>\<open>main\<close> that the
  frame driver reads, without the document.
\<close>

definition render_state :: "ui_state \<Rightarrow> rgba \<times> real \<times> real \<times> real \<times> real \<times> bool" where
  "render_state s =
     (color s, rotationX s, rotationY s, rotationSpeedX s, rotationSpeedY s, isRotating s)"

section \<open>What the functions of mat4 leave in the store\<close>

text \<open>A list of sixteen elements, written out.\<close>

lemma list16:
  assumes "length (m :: real list) = 16"
  obtains m0 m1 m2 m3 m4 m5 m6 m7 m8 m9 m10 m11 m12 m13 m14 m15
  where "m = [m0, m1, m2, m3, m4, m5, m6, m7, m8, m9, m10, m11, m12, m13, m14, m15]"
  using assms by (auto simp: eval_nat_numeral length_Suc_conv)

text \<open>
  The writes of \<^verbatim>\<open>mat4.translate\<close> taken together, whether or not \<^verbatim>\<open>out\<close> and
  \<^verbatim>\<open>a\<close> are the same array.
\<close>

lemma mat4_translate_store:
  assumes "length (h a) = 16" and "length (h out) = 16"
  shows "mat4_translate h out a (x, y, z) =
           (h(out := [h a ! 0, h a ! 1, h a ! 2, h a ! 3,
                      h a ! 4, h a ! 5, h a ! 6, h a ! 7,
                      h a ! 8, h a ! 9, h a ! 10, h a ! 11,
                      h a ! 0 * x + h a ! 4 * y + h a ! 8 * z + h a ! 12,
                      h a ! 1 * x + h a ! 5 * y + h a ! 9 * z + h a ! 13,
                      h a ! 2 * x + h a ! 6 * y + h a ! 10 * z + h a ! 14,
                      h a ! 3 * x + h a ! 7 * y + h a ! 11 * z + h a ! 15]), out)"
proof -
  obtain m0 m1 m2 m3 m4 m5 m6 m7 m8 m9 m10 m11 m12 m13 m14 m15
    where m: "h a = [m0, m1, m2, m3, m4, m5, m6, m7, m8, m9, m10, m11, m12, m13, m14, m15]"
    using assms(1) by (rule list16)
  obtain n0 n1 n2 n3 n4 n5 n6 n7 n8 n9 n10 n11 n12 n13 n14 n15
    where n: "h out = [n0, n1, n2, n3, n4, n5, n6, n7, n8, n9, n10, n11, n12, n13, n14, n15]"
    using assms(2) by (rule list16)
  show ?thesis
  proof (cases "out = a")
    case True
    then show ?thesis
      by (simp add: mat4_translate_def rd_def wr_def m Let_def)
  next
    case False
    then show ?thesis
      by (simp add: mat4_translate_def rd_def wr_def m n Let_def)
  qed
qed

text \<open>The writes of \<^verbatim>\<open>mat4.perspective\<close> taken together.\<close>

lemma mat4_perspective_store:
  assumes "length (h out) = 16"
  shows "mat4_perspective h out fovy aspect near far =
           (h(out := [1 / tan (fovy / 2) / aspect, 0, 0, 0,
                      0, 1 / tan (fovy / 2), 0, 0,
                      0, 0, (far + near) / (near - far), - 1,
                      0, 0, (2 * far * near) / (near - far), 0]), out)"
proof -
  obtain n0 n1 n2 n3 n4 n5 n6 n7 n8 n9 n10 n11 n12 n13 n14 n15
    where n: "h out = [n0, n1, n2, n3, n4, n5, n6, n7, n8, n9, n10, n11, n12, n13, n14, n15]"
    using assms by (rule list16)
  show ?thesis
    by (simp add: mat4_perspective_def wr_def n Let_def)
qed

text \<open>
  A rotation about an axis that is not degenerate returns \<^verbatim>\<open>out\<close> and keeps the row
  \<open>[0, 0, 0, 1]\<close>.
\<close>

lemma mat4_rotate_last_row:
  assumes "length (h a) = 16" and "length (h out) = 16"
    and "\<not> sqrt (x * x + y * y + z * z) < 0.000001"
    and "last_row (h a) = [0, 0, 0, 1]"
  shows "snd (mat4_rotate h out a rad (x, y, z)) = Some out
         \<and> last_row (fst (mat4_rotate h out a rad (x, y, z)) out) = [0, 0, 0, 1]"
proof -
  obtain m0 m1 m2 m3 m4 m5 m6 m7 m8 m9 m10 m11 m12 m13 m14 m15
    where m: "h a = [m0, m1, m2, m3, m4, m5, m6, m7, m8, m9, m10, m11, m12, m13, m14, m15]"
    using assms(1) by (rule list16)
  obtain n0 n1 n2 n3 n4 n5 n6 n7 n8 n9 n10 n11 n12 n13 n14 n15
    where n: "h out = [n0, n1, n2, n3, n4, n5, n6, n7, n8, n9, n10, n11, n12, n13, n14, n15]"
    using assms(2) by (rule list16)
  show ?thesis
  proof (cases "out = a")
    case True
    then show ?thesis using assms(3,4)
      by (simp add: mat4_rotate_def rd_def wr_def m Let_def last_row_def)
  next
    case False
    then show ?thesis using assms(3,4)
      by (simp add: mat4_rotate_def rd_def wr_def m n Let_def last_row_def)
  qed
qed

section \<open>Degenerate axes\<close>

text \<open>
  C3. For every store, output and input matrix, angle and axis whose Euclidean length
  is below \<open>0.000001\<close>, \<^verbatim>\<open>rotate\<close> returns the sentinel \<^verbatim>\<open>null\<close> and no matrix.
\<close>

theorem rotate_degenerate_axis_null:
  assumes "sqrt (x * x + y * y + z * z) < 0.000001"
  shows "snd (mat4_rotate h out a rad (x, y, z)) = None"
  using assms by (simp add: mat4_rotate_def)

theorem rotate_degenerate_axis_null_witness:
  "sqrt (0 * 0 + 0 * 0 + 0 * 0) < (0.000001 :: real)
   \<and> snd (mat4_rotate (\<lambda>_. mat4_create) 0 0 1 (0, 0, 0)) = None"
  using rotate_degenerate_axis_null [of 0 0 0 "\<lambda>_. mat4_create" 0 0 1] by simp

text \<open>
  C10. When the axis is shorter than \<open>0.000001\<close> the store is returned as it was
  received: no element of the output matrix, nor of any other array, is written.
\<close>

theorem rotate_degenerate_axis_store_unchanged:
  assumes "sqrt (x * x + y * y + z * z) < 0.000001"
  shows "fst (mat4_rotate h out a rad (x, y, z)) = h"
  using assms by (simp add: mat4_rotate_def)

theorem rotate_degenerate_axis_store_unchanged_witness:
  "sqrt (0 * 0 + 0 * 0 + 0 * 0) < (0.000001 :: real)
   \<and> fst (mat4_rotate (\<lambda>_. mat4_create) 0 1 2 (0, 0, 0)) = (\<lambda>_. mat4_create)"
  using rotate_degenerate_axis_store_unchanged [of 0 0 0 "\<lambda>_. mat4_create" 0 1 2] by simp

section \<open>Translation\<close>

text \<open>
  C8. For every matrix \<open>m\<close> (the array at \<open>a\<close>) and vector \<open>[x, y, z]\<close>,
  \<^verbatim>\<open>mat4.translate\<close> returns \<^verbatim>\<open>out\<close> holding \<open>m\<close> multiplied on the right by the
  elementary translation matrix of the vector, and the elements 0 to 11 of the result
  (the first three columns) are those of \<open>m\<close>.
\<close>

theorem translate_right_multiplies:
  assumes "length (h a) = 16" and "length (h out) = 16"
  shows "snd (mat4_translate h out a (x, y, z)) = out
       \<and> fst (mat4_translate h out a (x, y, z)) out
           = mat4_multiply_spec (h a) (translation_matrix_spec x y z)
       \<and> take 12 (fst (mat4_translate h out a (x, y, z)) out) = take 12 (h a)"
proof -
  obtain m0 m1 m2 m3 m4 m5 m6 m7 m8 m9 m10 m11 m12 m13 m14 m15
    where m: "h a = [m0, m1, m2, m3, m4, m5, m6, m7, m8, m9, m10, m11, m12, m13, m14, m15]"
    using assms(1) by (rule list16)
  have mul: "mat4_multiply_spec (h a) (translation_matrix_spec x y z) =
          [m0, m1, m2, m3, m4, m5, m6, m7, m8, m9, m10, m11,
           m0 * x + m4 * y + m8 * z + m12,
           m1 * x + m5 * y + m9 * z + m13,
           m2 * x + m6 * y + m10 * z + m14,
           m3 * x + m7 * y + m11 * z + m15]"
    by (simp add: mat4_multiply_spec_def translation_matrix_spec_def m upt_rec)
  show ?thesis
    unfolding mat4_translate_store [of h a out x y z, OF assms] mul by (simp add: m)
qed

theorem translate_right_multiplies_witness:
  "length ((\<lambda>_. mat4_create) 0) = 16
   \<and> fst (mat4_translate (\<lambda>_. mat4_create) 0 0 (0, 0, - 3)) 0
       = [1, 0, 0, 0, 0, 1, 0, 0, 0, 0, 1, 0, 0, 0, - 3, 1]"
proof -
  have l: "length ((\<lambda>_. mat4_create) (0::nat)) = 16"
    by (simp add: mat4_create_def)
  show ?thesis
    using translate_right_multiplies [where h = "\<lambda>_. mat4_create" and a = 0 and out = 0
        and x = 0 and y = 0 and z = "- 3", OF l l] l
    by (simp add: mat4_multiply_spec_def translation_matrix_spec_def mat4_create_def upt_rec)
qed

section \<open>The last row\<close>

text \<open>
  C9. The last row of a matrix (the elements 3, 7, 11 and 15) is \<open>[0, 0, 0, 1]\<close> for
  the identity matrix of \<^verbatim>\<open>mat4.create\<close>; when the input matrix has this last row,
  so has the output of \<^verbatim>\<open>mat4.translate\<close> and of \<^verbatim>\<open>mat4.rotate\<close> about an axis
  that is not degenerate; the matrix of \<^verbatim>\<open>mat4.perspective\<close> has the last row
  \<open>[0, 0, - 1, 0]\<close> instead.
\<close>

theorem last_row_invariant:
  assumes "length (h a) = 16" and "length (h out) = 16"
    and "last_row (h a) = [0, 0, 0, 1]"
    and "\<not> sqrt (x * x + y * y + z * z) < 0.000001"
  shows "last_row mat4_create = [0, 0, 0, 1]
       \<and> last_row (fst (mat4_translate h out a v) out) = [0, 0, 0, 1]
       \<and> snd (mat4_rotate h out a rad (x, y, z)) = Some out
       \<and> last_row (fst (mat4_rotate h out a rad (x, y, z)) out) = [0, 0, 0, 1]
       \<and> last_row (fst (mat4_perspective h out fovy aspect near far) out) = [0, 0, - 1, 0]"
proof -
  have c: "last_row mat4_create = [0, 0, 0, 1]"
    by (simp add: last_row_def mat4_create_def)
  obtain vx vy vz where v: "v = (vx, vy, vz)"
    by (cases v) auto
  have t: "last_row (fst (mat4_translate h out a v) out) = [0, 0, 0, 1]"
    using assms(3) unfolding v mat4_translate_store [of h a out vx vy vz, OF assms(1,2)]
    by (simp add: last_row_def)
  have p: "last_row (fst (mat4_perspective h out fovy aspect near far) out) = [0, 0, - 1, 0]"
    unfolding mat4_perspective_store [of h out fovy aspect near far, OF assms(2)]
    by (simp add: last_row_def)
  from c t p mat4_rotate_last_row [of h a out x y z rad, OF assms(1,2,4,3)] show ?thesis
    by simp
qed

theorem last_row_invariant_witness:
  "length ((\<lambda>_. mat4_create) 0) = 16
   \<and> last_row ((\<lambda>_. mat4_create) 0) = [0, 0, 0, 1]
   \<and> \<not> sqrt (1 * 1 + 0 * 0 + 0 * 0) < (0.000001 :: real)
   \<and> snd (mat4_rotate (\<lambda>_. mat4_create) 0 0 (pi / 2) (1, 0, 0)) = Some 0
   \<and> last_row (fst (mat4_rotate (\<lambda>_. mat4_create) 0 0 (pi / 2) (1, 0, 0)) 0) = [0, 0, 0, 1]
   \<and> last_row (fst (mat4_translate (\<lambda>_. mat4_create) 0 0 (0, 0, - 3)) 0) = [0, 0, 0, 1]
   \<and> last_row (fst (mat4_perspective (\<lambda>_. mat4_create) 0 (pi / 4) 2 0.1 100) 0) = [0, 0, - 1, 0]"
proof -
  have l: "length ((\<lambda>_. mat4_create) (0::nat)) = 16"
    by (simp add: mat4_create_def)
  have r: "last_row ((\<lambda>_. mat4_create) (0::nat)) = [0, 0, 0, 1]"
    by (simp add: mat4_create_def last_row_def)
  have n: "\<not> sqrt (1 * 1 + 0 * 0 + 0 * 0) < (0.000001 :: real)"
    by simp
  show ?thesis
    using last_row_invariant [where h = "\<lambda>_. mat4_create" and a = 0 and out = 0
        and x = 1 and y = 0 and z = 0 and v = "(0, 0, - 3)" and rad = "pi / 2"
        and fovy = "pi / 4" and aspect = 2 and near = "0.1" and far = 100, OF l l r n] l r n
    by simp
qed

section \<open>The perspective projection\<close>

text \<open>The depth computations, with the denominator \<open>near - far\<close> as a variable of its own.\<close>

lemma depth_at_near:
  fixes near d :: real
  assumes "d \<noteq> 0" and "near \<noteq> 0"
  shows "(((near - d) + near) / d * (- near) + 2 * (near - d) * near / d * 1) / (- 1 * (- near)) = - 1"
  using assms by (simp add: field_simps)

lemma depth_at_far:
  fixes far d :: real
  assumes "d \<noteq> 0" and "far \<noteq> 0"
  shows "((far + (far + d)) / d * (- far) + 2 * far * (far + d) / d * 1) / (- 1 * (- far)) = 1"
  using assms by (simp add: field_simps)

text \<open>
  In exact arithmetic: for \<open>0 < near < far\<close> the entries that the formulas of
  \<^verbatim>\<open>mat4.perspective\<close> denote send a point with camera-space \<open>z = - near\<close> to depth
  \<open>- 1\<close> after the division by \<open>w\<close>, and a point with \<open>z = - far\<close> to depth \<open>1\<close>.
  The program stores single precision roundings of the entries 10 and 14, for which
  these equalities are not claimed.
\<close>

lemma perspective_depth_in_exact_arithmetic:
  assumes "0 < fovy" and "fovy < pi" and "0 < aspect" and "0 < near" and "near < far"
    and "length (h out) = 16"
  shows "depth_after_divide
           (mat4_times_vec4 (fst (mat4_perspective h out fovy aspect near far) out) (x, y, - near, 1)) = - 1
       \<and> depth_after_divide
           (mat4_times_vec4 (fst (mat4_perspective h out fovy aspect near far) out) (x, y, - far, 1)) = 1"
proof -
  define d where "d = near - far"
  have d: "d \<noteq> 0" and n: "near \<noteq> 0" and f: "far \<noteq> 0"
    using assms(4,5) by (auto simp: d_def)
  have zn: "((far + near) / (near - far) * (- near) + 2 * far * near / (near - far) * 1) / (- 1 * (- near)) = - 1"
    using depth_at_near [OF d n] by (simp add: d_def)
  have zf: "((far + near) / (near - far) * (- far) + 2 * far * near / (near - far) * 1) / (- 1 * (- far)) = 1"
    using depth_at_far [of d far] d f by (simp add: d_def)
  have "depth_after_divide
           (mat4_times_vec4 (fst (mat4_perspective h out fovy aspect near far) out) (x, y, - near, 1))
        = ((far + near) / (near - far) * (- near) + 2 * far * near / (near - far) * 1) / (- 1 * (- near))"
    unfolding mat4_perspective_store [of h out fovy aspect near far, OF assms(6)]
    by (simp add: mat4_times_vec4_def depth_after_divide_def)
  moreover have "depth_after_divide
           (mat4_times_vec4 (fst (mat4_perspective h out fovy aspect near far) out) (x, y, - far, 1))
        = ((far + near) / (near - far) * (- far) + 2 * far * near / (near - far) * 1) / (- 1 * (- far))"
    unfolding mat4_perspective_store [of h out fovy aspect near far, OF assms(6)]
    by (simp add: mat4_times_vec4_def depth_after_divide_def)
  ultimately show ?thesis
    by (simp only: zn zf)
qed

section \<open>Rotations about the coordinate axes\<close>

text \<open>
  \<^verbatim>\<open>mat4.rotate\<close> in place (\<^verbatim>\<open>out\<close> and \<^verbatim>\<open>a\<close> the same array, as in
  \<^verbatim>\<open>drawScene\<close>) about the X axis and about the Y axis.
\<close>

lemma mat4_rotate_X_in_place:
  assumes "h p = [m0, m1, m2, m3, m4, m5, m6, m7, m8, m9, m10, m11, m12, m13, m14, m15]"
  shows "mat4_rotate h p p rad (1, 0, 0) =
           (h(p := [m0, m1, m2, m3,
                    m4 * cos rad + m8 * sin rad, m5 * cos rad + m9 * sin rad,
                    m6 * cos rad + m10 * sin rad, m7 * cos rad + m11 * sin rad,
                    m8 * cos rad - m4 * sin rad, m9 * cos rad - m5 * sin rad,
                    m10 * cos rad - m6 * sin rad, m11 * cos rad - m7 * sin rad,
                    m12, m13, m14, m15]), Some p)"
  by (simp add: mat4_rotate_def rd_def wr_def assms Let_def algebra_simps)

lemma mat4_rotate_Y_in_place:
  assumes "h p = [m0, m1, m2, m3, m4, m5, m6, m7, m8, m9, m10, m11, m12, m13, m14, m15]"
  shows "mat4_rotate h p p rad (0, 1, 0) =
           (h(p := [m0 * cos rad - m8 * sin rad, m1 * cos rad - m9 * sin rad,
                    m2 * cos rad - m10 * sin rad, m3 * cos rad - m11 * sin rad,
                    m4, m5, m6, m7,
                    m0 * sin rad + m8 * cos rad, m1 * sin rad + m9 * cos rad,
                    m2 * sin rad + m10 * cos rad, m3 * sin rad + m11 * cos rad,
                    m12, m13, m14, m15]), Some p)"
  by (simp add: mat4_rotate_def rd_def wr_def assms Let_def algebra_simps)

text \<open>An angle that is neither 0 nor \<open>pi\<close> modulo \<open>2 * pi\<close> has a sine other than 0.\<close>

lemma sin_nonzero:
  fixes t :: real
  assumes "\<And>k :: int. t \<noteq> 2 * of_int k * pi" and "\<And>k :: int. t \<noteq> pi + 2 * of_int k * pi"
  shows "sin t \<noteq> 0"
proof
  assume "sin t = 0"
  then obtain i :: int where i: "t = of_int i * pi"
    by (auto simp: sin_zero_iff_int2)
  show False
  proof (cases "even i")
    case True
    then obtain k where "i = 2 * k" by (elim evenE)
    with i assms(1) [of k] show False by simp
  next
    case False
    then obtain k where "i = 2 * k + 1" by (elim oddE)
    with i assms(2) [of k] show False by (simp add: algebra_simps)
  qed
qed

text \<open>
  In exact arithmetic: for every angle \<open>t\<close> that is neither 0 nor \<open>pi\<close> modulo
  \<open>2 * pi\<close>, rotating the identity matrix in place about the X axis by \<open>t\<close> and then
  about the Y axis by \<open>t\<close> gives a matrix other than rotating it about the Y axis first
  and about the X axis second: element 1 is \<open>sin t * sin t\<close> in the one and 0 in the
  other. Nothing is claimed of the single precision numbers the program stores, where
  the square of a small sine rounds to 0.
\<close>

lemma rotate_X_Y_differ_in_exact_arithmetic:
  assumes "\<And>k :: int. t \<noteq> 2 * of_int k * pi" and "\<And>k :: int. t \<noteq> pi + 2 * of_int k * pi"
    and "h p = mat4_create"
  shows "snd (mat4_rotate h p p t (1, 0, 0)) = Some p
       \<and> snd (mat4_rotate (fst (mat4_rotate h p p t (1, 0, 0))) p p t (0, 1, 0)) = Some p
       \<and> snd (mat4_rotate h p p t (0, 1, 0)) = Some p
       \<and> snd (mat4_rotate (fst (mat4_rotate h p p t (0, 1, 0))) p p t (1, 0, 0)) = Some p
       \<and> fst (mat4_rotate (fst (mat4_rotate h p p t (1, 0, 0))) p p t (0, 1, 0)) p
           \<noteq> fst (mat4_rotate (fst (mat4_rotate h p p t (0, 1, 0))) p p t (1, 0, 0)) p"
proof -
  have s: "sin t \<noteq> 0"
    using assms(1,2) by (rule sin_nonzero)
  have hp: "h p = [1, 0, 0, 0, 0, 1, 0, 0, 0, 0, 1, 0, 0, 0, 0, 1]"
    using assms(3) by (simp add: mat4_create_def)
  note x1 = mat4_rotate_X_in_place [of h p, OF hp, of t]
  note y1 = mat4_rotate_Y_in_place [of h p, OF hp, of t]
  have xy: "snd (mat4_rotate (fst (mat4_rotate h p p t (1, 0, 0))) p p t (0, 1, 0)) = Some p"
    "fst (mat4_rotate (fst (mat4_rotate h p p t (1, 0, 0))) p p t (0, 1, 0)) p =
       [cos t, sin t * sin t, - (sin t * cos t), 0,
        0, cos t, sin t, 0,
        sin t, - (sin t * cos t), cos t * cos t, 0,
        0, 0, 0, 1]"
    unfolding x1 by (subst mat4_rotate_Y_in_place, simp, simp)+
  have yx: "snd (mat4_rotate (fst (mat4_rotate h p p t (0, 1, 0))) p p t (1, 0, 0)) = Some p"
    "fst (mat4_rotate (fst (mat4_rotate h p p t (0, 1, 0))) p p t (1, 0, 0)) p =
       [cos t, 0, - sin t, 0,
        sin t * sin t, cos t, sin t * cos t, 0,
        sin t * cos t, - sin t, cos t * cos t, 0,
        0, 0, 0, 1]"
    unfolding y1 by (subst mat4_rotate_X_in_place, simp, simp)+
  show ?thesis
    unfolding xy yx using s by (simp add: x1 y1)
qed

section \<open>The pentagon\<close>

text \<open>The five runs of the loop of \<^verbatim>\<open>initBuffers\<close>, from \<^verbatim>\<open>i = 0\<close>.\<close>

lemma initBuffers_loop_unrolled:
  "initBuffers_loop radius centerX centerY 0 vs =
     vs @ concat (map (\<lambda>i. [centerX + radius * cos (real i * 2 * pi / 5 - pi / 2),
                              centerY + radius * sin (real i * 2 * pi / 5 - pi / 2), 0]) [0 ..< 5])"
  by (simp add: upt_rec Let_def)

text \<open>A point of the circle of radius \<open>r\<close> about the origin is at distance \<open>\<bar>r\<bar>\<close> from it.\<close>

lemma on_circle:
  fixes r :: real
  shows "sqrt (r * cos t * (r * cos t) + r * sin t * (r * sin t)) = \<bar>r\<bar>"
proof -
  have "r * cos t * (r * cos t) + r * sin t * (r * sin t)
          = r * r * (cos t * cos t + sin t * sin t)"
    by (simp only: distrib_left mult_ac)
  also have "\<dots> = r * r"
    by (simp only: sin_cos_squared_add3 mult_1_right)
  finally show ?thesis by simp
qed

text \<open>
  For every radius the loop leaves five vertices of three coordinates each, all on the
  circle of that radius in the plane \<open>z = 0\<close>.
\<close>

lemma initBuffers_vertices_on_circle:
  "length (initBuffers_loop r 0 0 0 []) = 3 * 5
   \<and> (\<forall>i < 5. case vertex (initBuffers_loop r 0 0 0 []) i of
                 (x, y, z) \<Rightarrow> sqrt (x * x + y * y + z * z) = \<bar>r\<bar> \<and> z = 0)"
  unfolding initBuffers_loop_unrolled
  by (simp add: upt_rec vertex_def All_less_Suc eval_nat_numeral on_circle)

text \<open>
  C1. \<^verbatim>\<open>initBuffers\<close> produces five vertices, and its first vertex is
  \<open>(0, - 0.8, 0)\<close>: the lowest point of the circle of radius \<open>0.8\<close>, not the point
  \<open>(0, 0.8, 0)\<close> at its top that the comment "Start from top" of the source and the
  specification name.
\<close>

theorem initBuffers_first_vertex:
  "length initBuffers_vertices = 3 * initBuffers_vertexCount
   \<and> vertex initBuffers_vertices 0 = (0, - 0.8, 0)
   \<and> vertex initBuffers_vertices 0 \<noteq> (0, 0.8, 0)"
  unfolding initBuffers_vertices_def Let_def initBuffers_loop_unrolled
  by (simp add: upt_rec vertex_def initBuffers_vertexCount_def)

section \<open>The render loop and the handlers\<close>

text \<open>While \<^verbatim>\<open>isRotating\<close> holds, \<open>n\<close> runs of \<^verbatim>\<open>render\<close> add \<open>n\<close> times the speeds.\<close>

lemma render_funpow_rotating:
  assumes "isRotating s"
  shows "isRotating ((render ^^ n) s)
       \<and> rotationSpeedX ((render ^^ n) s) = rotationSpeedX s
       \<and> rotationSpeedY ((render ^^ n) s) = rotationSpeedY s
       \<and> rotationX ((render ^^ n) s) = rotationX s + real n * rotationSpeedX s
       \<and> rotationY ((render ^^ n) s) = rotationY s + real n * rotationSpeedY s"
proof (induction n)
  case 0
  show ?case using assms by simp
next
  case (Suc n)
  then show ?case
    by (simp add: render_def Let_def algebra_simps)
qed

text \<open>
  C4. From a state with both angles 0 and \<^verbatim>\<open>isRotating\<close> true, \<open>n\<close> runs of
  \<^verbatim>\<open>render\<close> leave \<open>rotationX = n * rotationSpeedX\<close> and
  \<open>rotationY = n * rotationSpeedY\<close> (over the reals, without the rounding of the
  additions), and the reset handler then sets both angles to 0 whatever \<open>n\<close> was.
\<close>

theorem ticks_then_reset:
  assumes "rotationX s = 0" and "rotationY s = 0" and "isRotating s"
  shows "rotationX ((render ^^ n) s) = real n * rotationSpeedX s
       \<and> rotationY ((render ^^ n) s) = real n * rotationSpeedY s
       \<and> rotationX (resetView_click ((render ^^ n) s)) = 0
       \<and> rotationY (resetView_click ((render ^^ n) s)) = 0"
  using render_funpow_rotating [OF assms(3), of n] assms(1,2)
  by (simp add: resetView_click_def Let_def)

theorem ticks_then_reset_witness:
  "rotationX (main_state [] [] [] [] []) = 0 \<and> rotationY (main_state [] [] [] [] []) = 0
   \<and> isRotating (main_state [] [] [] [] [])
   \<and> rotationX ((render ^^ 3) (main_state [] [] [] [] [])) = 0.03
   \<and> rotationY ((render ^^ 3) (main_state [] [] [] [] [])) = 0.015
   \<and> rotationX (resetView_click ((render ^^ 3) (main_state [] [] [] [] []))) = 0
   \<and> rotationY (resetView_click ((render ^^ 3) (main_state [] [] [] [] []))) = 0"
  using ticks_then_reset [of "main_state [] [] [] [] []" 3]
  by (simp add: main_state_def)

text \<open>
  C5, as the specification states it: every handler applied twice leaves the render
  state that applying it once leaves. It fails for the pause handler and for the colour
  handler on the state \<^verbatim>\<open>main\<close> starts with: one click pauses and the second
  resumes; one click gives red and the second blue.
\<close>

theorem handlers_idempotent_counterexample:
  "render_state (toggleRotation_click (toggleRotation_click (main_state ''Pause Rotation'' ''none'' [] [] [])))
     \<noteq> render_state (toggleRotation_click (main_state ''Pause Rotation'' ''none'' [] [] []))
   \<and> render_state (changeColor_click (changeColor_click (main_state ''Pause Rotation'' ''none'' [] [] [])))
     \<noteq> render_state (changeColor_click (main_state ''Pause Rotation'' ''none'' [] [] []))"
  by (simp add: render_state_def toggleRotation_click_def changeColor_click_def main_state_def Let_def)

text \<open>
  C5, amended. The reset handler and the share handler are idempotent mutations of the
  render state: applying either twice leaves the render state that applying it once
  leaves (the share handler assigns to no variable of \<^verbatim>\<open>main\<close>, so it leaves the
  render state as it was). The pause handler and the colour handler are not: on every
  state, applying one of them twice leaves a render state other than applying it once.
\<close>

theorem reset_share_idempotent_pause_color_toggle:
  "render_state (resetView_click (resetView_click s)) = render_state (resetView_click s)
   \<and> render_state (shareButton_click (shareButton_click s)) = render_state (shareButton_click s)
   \<and> render_state (shareButton_click s) = render_state s
   \<and> render_state (toggleRotation_click (toggleRotation_click s))
        \<noteq> render_state (toggleRotation_click s)
   \<and> render_state (changeColor_click (changeColor_click s))
        \<noteq> render_state (changeColor_click s)"
proof -
  have r: "render_state (resetView_click (resetView_click s)) = render_state (resetView_click s)"
    by (simp add: render_state_def resetView_click_def Let_def)
  have b: "render_state (shareButton_click t) = render_state t" for t
    by (simp add: render_state_def shareButton_click_def Let_def)
  have p: "isRotating (toggleRotation_click (toggleRotation_click s))
             \<noteq> isRotating (toggleRotation_click s)"
    by (simp add: toggleRotation_click_def Let_def)
  have c: "color (changeColor_click (changeColor_click s)) \<noteq> color (changeColor_click s)"
    by (cases "color s") (simp add: changeColor_click_def)
  from r b p c show ?thesis
    by (simp add: render_state_def)
qed

text \<open>
  C6. The colour handler changes the colour and nothing else; from the blue preset
  \<open>[0.2, 0.4, 0.8, 1.0]\<close> one click gives the red preset \<open>[0.8, 0.2, 0.2, 1.0]\<close> and
  a second click gives the blue preset again, component for component.
\<close>

theorem changeColor_two_cycle:
  "color (changeColor_click (s\<lparr> color := (0.2, 0.4, 0.8, 1.0) \<rparr>)) = (0.8, 0.2, 0.2, 1.0)
   \<and> color (changeColor_click (changeColor_click (s\<lparr> color := (0.2, 0.4, 0.8, 1.0) \<rparr>)))
       = (0.2, 0.4, 0.8, 1.0)
   \<and> changeColor_click (s\<lparr> color := (0.2, 0.4, 0.8, 1.0) \<rparr>) = s\<lparr> color := (0.8, 0.2, 0.2, 1.0) \<rparr>
   \<and> changeColor_click (changeColor_click (s\<lparr> color := (0.2, 0.4, 0.8, 1.0) \<rparr>))
       = s\<lparr> color := (0.2, 0.4, 0.8, 1.0) \<rparr>"
  by (simp add: changeColor_click_def)

end
